theory Spec2Isabelle
  imports Complex_Main
begin

section \<open>JavaScript values\<close>

text \<open>
  The values the service and the route handle are the values of JSON documents (request
  bodies, store documents, the reasoning service's response) together with
  \<open>undefined\<close>. An object is the association list of its own properties, read with
  \<open>map_of\<close>. A number is the rational it denotes; \<open>NaN\<close> and the infinities
  are no JSON values.
\<close>

datatype jsval =
    JUndefined
  | JNull
  | JBool bool
  | JNum rat
  | JStr string
  | JArr "jsval list"
  | JObj "(string \<times> jsval) list"

text \<open>A thrown value is an \<open>Error\<close> object: its class name and its message.\<close>

datatype js_exn = JsError (name: string) (message: string)

text \<open>What the code writes to the console: \<open>console.warn\<close> and \<open>console.error\<close>.\<close>

datatype diag = Warn string | ErrorLog string js_exn

text \<open>JavaScript's \<open>ToBoolean\<close>, as \<open>!v\<close>, \<open>a || b\<close> and \<open>a && b\<close> use it.\<close>

fun truthy :: "jsval \<Rightarrow> bool" where
  "truthy JUndefined = False"
| "truthy JNull = False"
| "truthy (JBool b) = b"
| "truthy (JNum r) = (r \<noteq> 0)"
| "truthy (JStr s) = (s \<noteq> [])"
| "truthy (JArr xs) = True"
| "truthy (JObj fs) = True"

text \<open>\<open>a || b\<close>\<close>

definition js_or :: "jsval \<Rightarrow> jsval \<Rightarrow> jsval" where
  "js_or a b = (if truthy a then a else b)"

text \<open>
  The \<open>TypeError\<close> of reading property \<open>k\<close> of \<open>undefined\<close> or \<open>null\<close>, with
  the message Node.js gives it.
\<close>

definition cannot_read :: "string \<Rightarrow> string \<Rightarrow> js_exn" where
  "cannot_read what k =
     JsError ''TypeError''
       (''Cannot read properties of '' @ what @ '' (reading '' @ [CHR 0x27] @ k @ [CHR 0x27] @ '')'')"

text \<open>
  \<open>v.k\<close> for a property name \<open>k\<close> that no prototype defines (the code reads
  \<open>choices\<close>, \<open>message\<close>, \<open>content\<close>, \<open>nextSteps\<close>, \<open>matches\<close>, \<open>title\<close>,
  \<open>amount\<close>, \<open>deadline\<close> and the four fields of the request body): it throws on
  \<open>undefined\<close> and \<open>null\<close>, reads an object's own property, and is \<open>undefined\<close>
  on every other value.
\<close>

definition field :: "(string \<times> jsval) list \<Rightarrow> string \<Rightarrow> jsval" where
  "field fs k = (case map_of fs k of Some v \<Rightarrow> v | None \<Rightarrow> JUndefined)"

fun get_prop :: "jsval \<Rightarrow> string \<Rightarrow> js_exn + jsval" where
  "get_prop JUndefined k = Inl (cannot_read ''undefined'' k)"
| "get_prop JNull k = Inl (cannot_read ''null'' k)"
| "get_prop (JObj fs) k = Inr (field fs k)"
| "get_prop v k = Inr JUndefined"

text \<open>\<open>v?.k\<close>: \<open>undefined\<close> where \<open>v.k\<close> would throw.\<close>

fun get_opt :: "jsval \<Rightarrow> string \<Rightarrow> jsval" where
  "get_opt (JObj fs) k = field fs k"
| "get_opt v k = JUndefined"

text \<open>\<open>v[0]\<close>: the first element of an array, the first character of a string.\<close>

fun get_index0 :: "jsval \<Rightarrow> js_exn + jsval" where
  "get_index0 JUndefined = Inl (cannot_read ''undefined'' ''0'')"
| "get_index0 JNull = Inl (cannot_read ''null'' ''0'')"
| "get_index0 (JArr xs) = Inr (case xs of [] \<Rightarrow> JUndefined | x # _ \<Rightarrow> x)"
| "get_index0 (JStr s) = Inr (case s of [] \<Rightarrow> JUndefined | c # _ \<Rightarrow> JStr [c])"
| "get_index0 (JObj fs) = Inr (field fs ''0'')"
| "get_index0 v = Inr JUndefined"

section \<open>The reasoning service and the host\<close>

record chat_message =
  role :: string
  content :: string

record request =
  model :: string
  messages :: "chat_message list"
  temperature :: rat

text \<open>
  What \<open>getNextSteps\<close> calls and does not define: the client's
  \<open>chat.completions.create\<close>, which answers a request with a response object or throws,
  and may depend on a state \<open>'w\<close> of the world that the caller does not see (the model
  samples at temperature 0.7); \<open>JSON.parse\<close>, which returns a value or throws; and
  \<open>JSON.stringify\<close> as a template literal interpolates it.
\<close>

record 'w host =
  chat_create :: "request \<Rightarrow> 'w \<Rightarrow> (js_exn + jsval) \<times> 'w"
  JSON_parse :: "jsval \<Rightarrow> js_exn + jsval"
  JSON_stringify :: "jsval \<Rightarrow> string"

section \<open>getNextSteps\<close>

definition unlines :: "string list \<Rightarrow> string" where
  "unlines ls = concat (map (\<lambda>l. l @ [CHR 0x0A]) ls)"

definition systemPrompt :: string where
  \<open>systemPrompt = unlines [
    '''',
    ''You are a highly knowledgeable and empathetic educational AI assistant. Your goal is to provide actionable, personalized guidance to students based on their complete academic profile, college matches, and scholarship opportunities. Follow these instructions strictly:'',
    '''',
    ''1. Input Context:'',
    ''- studentProfile: contains name, GPA, test scores, goals, intended major, extracurriculars, and other relevant info.'',
    ''- collegeMatches: a list of colleges with name, likelihood (reach, target, safety), net cost, and details.'',
    ''- scholarships: a list of scholarships with title, amount, deadline, and description.'',
    '''',
    ''2. Output Format (JSON):'',
    ''{'',
    ''  "nextSteps": ['',
    ''    {'',
    ''      "task": "Step 1: Highest priority action with specific details"'',
    ''    },'',
    ''    {'',
    ''      "task": "Step 2: Secondary action with specific details"'',
    ''    },'',
    ''    {'',
    ''      "task": "Step 3: Tertiary action with specific details"'',
    ''    }'',
    ''  ]'',
    ''}'',
    '''',
    ''3. Behavior Rules:'',
    ''- Provide exactly 3 numbered action steps (1., 2., 3.)'',
    ''- Each step should be 1-2 sentences, actionable and prioritized'',
    ''- Prioritize actions based on eligibility, deadlines, and likelihood'',
    ''- Give concrete advice; avoid vague recommendations'',
    ''- Personalize suggestions based on the student profile and goals'',
    ''- Use friendly, motivating language'',
    ''- Focus on college prep, scholarship strategy, and career prep'',
    '''',
    ''4. If data is missing, make reasonable assumptions and indicate them.'']\<close>

definition userMessage :: "'w host \<Rightarrow> jsval \<Rightarrow> jsval \<Rightarrow> jsval \<Rightarrow> string" where
  "userMessage h studentProfile collegeMatches scholarships = unlines [
     '''',
     ''studentProfile: '' @ JSON_stringify h studentProfile,
     ''collegeMatches: '' @ JSON_stringify h collegeMatches,
     ''scholarships: '' @ JSON_stringify h scholarships]"

definition build_request :: "'w host \<Rightarrow> jsval \<Rightarrow> jsval \<Rightarrow> jsval \<Rightarrow> request" where
  "build_request h studentProfile collegeMatches scholarships =
     \<lparr>model = ''gpt-4o-mini'',
      messages = [
        \<lparr>role = ''system'', content = systemPrompt\<rparr>,
        \<lparr>role = ''user'', content = userMessage h studentProfile collegeMatches scholarships\<rparr>],
      temperature = 7 / 10\<rparr>"

text \<open>\<open>response.choices[0].message.content\<close>: each read may throw.\<close>

definition read_content :: "jsval \<Rightarrow> js_exn + jsval" where
  "read_content response =
     (case get_prop response ''choices'' of
        Inl e \<Rightarrow> Inl e
      | Inr choices \<Rightarrow>
          (case get_index0 choices of
             Inl e \<Rightarrow> Inl e
           | Inr choice \<Rightarrow>
               (case get_prop choice ''message'' of
                  Inl e \<Rightarrow> Inl e
                | Inr msg \<Rightarrow> get_prop msg ''content'')))"

definition fallbackSteps :: jsval where
  "fallbackSteps = JArr [
     JObj [(''task'', JStr ''Complete your college applications early to meet deadlines'')],
     JObj [(''task'', JStr ''Research and apply for scholarships that match your profile'')],
     JObj [(''task'', JStr ''Prepare for college entrance exams and improve your test scores'')]]"

definition invalid_json_warning :: diag where
  "invalid_json_warning = Warn ''GPT returned invalid JSON, returning fallback steps''"

text \<open>
  The inner \<open>try\<close>/\<open>catch\<close>: parse the content and return \<open>parsed.nextSteps || []\<close>;
  whatever is thrown in there, by \<open>JSON.parse\<close> or by the property read, is caught
  by the bare \<open>catch\<close>, which warns and returns the fallback steps.
\<close>

definition normalize_body :: "'w host \<Rightarrow> jsval \<Rightarrow> jsval \<times> diag list" where
  "normalize_body h body =
     (case JSON_parse h body of
        Inl e \<Rightarrow> (fallbackSteps, [invalid_json_warning])
      | Inr parsed \<Rightarrow>
          (case get_prop parsed ''nextSteps'' of
             Inl e \<Rightarrow> (fallbackSteps, [invalid_json_warning])
           | Inr nextSteps \<Rightarrow> (js_or nextSteps (JArr []), [])))"

text \<open>
  The body of the outer \<open>try\<close>: the call of the service, the read of the content and the
  inner \<open>try\<close>/\<open>catch\<close>. \<open>Inl\<close> is what it throws.
\<close>

definition getNextSteps_try ::
  "'w host \<Rightarrow> jsval \<Rightarrow> jsval \<Rightarrow> jsval \<Rightarrow> 'w \<Rightarrow> (js_exn + jsval \<times> diag list) \<times> 'w" where
  "getNextSteps_try h studentProfile collegeMatches scholarships w =
     (case chat_create h (build_request h studentProfile collegeMatches scholarships) w of
        (Inl e, w') \<Rightarrow> (Inl e, w')
      | (Inr response, w') \<Rightarrow>
          (case read_content response of
             Inl e \<Rightarrow> (Inl e, w')
           | Inr body \<Rightarrow> (Inr (normalize_body h body), w')))"

definition error_descriptor :: "js_exn \<Rightarrow> jsval" where
  "error_descriptor err = JObj [(''error'', JStr (message err))]"

text \<open>
  \<open>getNextSteps\<close>: the outer \<open>catch\<close> logs what the body threw and returns
  \<open>{ error: err.message }\<close>. The result is the returned value, the console output and the
  world after the call.
\<close>

definition getNextSteps ::
  "'w host \<Rightarrow> jsval \<Rightarrow> jsval \<Rightarrow> jsval \<Rightarrow> 'w \<Rightarrow> jsval \<times> diag list \<times> 'w" where
  "getNextSteps h studentProfile collegeMatches scholarships w =
     (case getNextSteps_try h studentProfile collegeMatches scholarships w of
        (Inr (v, out), w') \<Rightarrow> (v, out, w')
      | (Inl err, w') \<Rightarrow>
          (error_descriptor err, [ErrorLog ''Error in getNextSteps:'' err], w'))"

section \<open>The backing store\<close>

type_synonym document = "(string \<times> jsval) list"

text \<open>
  The handle \<open>getDB()\<close> returns, as the route uses it:
  \<open>collection('user_applications').findOne({ userId })\<close> and
  \<open>collection('college_matches').findOne({ userId }, { sort: { snapshotAt: -1 } })\<close>
  answer a user identifier with a document, with \<open>null\<close>, or throw; \<open>scholarships\<close>
  holds the documents of the scholarships collection, or what reading it throws.
\<close>

record db =
  user_applications_findOne :: "jsval \<Rightarrow> js_exn + jsval"
  college_matches_findOne :: "jsval \<Rightarrow> js_exn + jsval"
  scholarships :: "js_exn + document list"

text \<open>The amount a scholarship is ranked by: its numeric \<open>amount\<close>, 0 when it has none.\<close>

definition amount_of :: "document \<Rightarrow> rat" where
  "amount_of d = (case field d ''amount'' of JNum r \<Rightarrow> r | _ \<Rightarrow> 0)"

text \<open>
  Modelled from the spec: the store's query \<open>find({}).sort({ amount: -1 }).limit(n)\<close>,
  which is the driver's and not in the repository. The spec gives it as "a ranked top-N
  query (by amount, descending) over the scholarship collection", with an absent amount
  counting as 0.
\<close>

definition top_by_amount :: "nat \<Rightarrow> document list \<Rightarrow> document list" where
  "top_by_amount n docs = take n (sort_key (\<lambda>d. - amount_of d) docs)"

section \<open>POST /next-steps\<close>

record response =
  status :: nat
  json :: jsval

text \<open>\<open>d => ({ title: d.title, amount: d.amount, deadline: d.deadline })\<close>\<close>

definition project_scholarship :: "document \<Rightarrow> jsval" where
  "project_scholarship d =
     JObj [(''title'', field d ''title''), (''amount'', field d ''amount''),
           (''deadline'', field d ''deadline'')]"

text \<open>
  \<open>let { studentProfile, collegeMatches, scholarships, userId } = req.body\<close>: it throws
  when the body is \<open>undefined\<close> or \<open>null\<close>.
\<close>

definition cannot_destructure :: "string \<Rightarrow> js_exn" where
  "cannot_destructure what =
     JsError ''TypeError''
       (''Cannot destructure property '' @ [CHR 0x27] @ ''studentProfile'' @ [CHR 0x27] @ '' of '' @
        [CHR 0x27] @ ''req.body'' @ [CHR 0x27] @ '' as it is '' @ what @ ''.'')"

fun destructure_body :: "jsval \<Rightarrow> js_exn + jsval \<times> jsval \<times> jsval \<times> jsval" where
  "destructure_body JUndefined = Inl (cannot_destructure ''undefined'')"
| "destructure_body JNull = Inl (cannot_destructure ''null'')"
| "destructure_body body =
     Inr (get_opt body ''studentProfile'', get_opt body ''collegeMatches'',
          get_opt body ''scholarships'', get_opt body ''userId'')"

text \<open>The profile: fetched by \<open>userId\<close> when it is missing, then \<open>|| {}\<close>.\<close>

definition resolve_profile :: "db \<Rightarrow> jsval \<Rightarrow> jsval \<Rightarrow> js_exn + jsval" where
  "resolve_profile d studentProfile userId =
     (if \<not> truthy studentProfile \<and> truthy userId then
        (case user_applications_findOne d userId of
           Inl e \<Rightarrow> Inl e
         | Inr userDoc \<Rightarrow> Inr (js_or (js_or userDoc JNull) (JObj [])))
      else Inr (js_or studentProfile (JObj [])))"

text \<open>The matches: the cached snapshot's \<open>cm?.matches || []\<close> when missing, then \<open>|| []\<close>.\<close>

definition resolve_matches :: "db \<Rightarrow> jsval \<Rightarrow> jsval \<Rightarrow> js_exn + jsval" where
  "resolve_matches d collegeMatches userId =
     (if \<not> truthy collegeMatches \<and> truthy userId then
        (case college_matches_findOne d userId of
           Inl e \<Rightarrow> Inl e
         | Inr cm \<Rightarrow> Inr (js_or (js_or (get_opt cm ''matches'') (JArr [])) (JArr [])))
      else Inr (js_or collegeMatches (JArr [])))"

text \<open>The scholarships: the top 5 of the store, projected, when missing.\<close>

definition resolve_scholarships :: "db \<Rightarrow> jsval \<Rightarrow> js_exn + jsval" where
  "resolve_scholarships d given =
     (if \<not> truthy given then
        (case scholarships d of
           Inl e \<Rightarrow> Inl e
         | Inr docs \<Rightarrow> Inr (JArr (map project_scholarship (top_by_amount 5 docs))))
      else Inr given)"

text \<open>
  Lines 159 to 181 of the handler: the three arguments \<open>getNextSteps\<close> is called with,
  or what the handler's \<open>try\<close> block throws before the call.
\<close>

definition resolve_inputs :: "db \<Rightarrow> jsval \<Rightarrow> js_exn + jsval \<times> jsval \<times> jsval" where
  "resolve_inputs d body =
     (case destructure_body body of
        Inl e \<Rightarrow> Inl e
      | Inr (studentProfile, collegeMatches, given, userId) \<Rightarrow>
          (case resolve_profile d studentProfile userId of
             Inl e \<Rightarrow> Inl e
           | Inr profile \<Rightarrow>
               (case resolve_matches d collegeMatches userId of
                  Inl e \<Rightarrow> Inl e
                | Inr matches \<Rightarrow>
                    (case resolve_scholarships d given of
                       Inl e \<Rightarrow> Inl e
                     | Inr schols \<Rightarrow> Inr (profile, matches, schols)))))"

text \<open>
  The handler of \<open>POST /next-steps\<close>: \<open>getDB()\<close> is \<open>None\<close> when it returns no handle.
  The result is the response sent, the console output and the world after the request.
\<close>

definition post_next_steps ::
  "'w host \<Rightarrow> db option \<Rightarrow> jsval \<Rightarrow> 'w \<Rightarrow> response \<times> diag list \<times> 'w" where
  "post_next_steps h getDB body w =
     (case getDB of
        None \<Rightarrow>
          (\<lparr>status = 503, json = JObj [(''error'', JStr ''Database service unavailable'')]\<rparr>,
           [], w)
      | Some d \<Rightarrow>
          (case resolve_inputs d body of
             Inl err \<Rightarrow>
               (\<lparr>status = 500, json = JObj [(''error'', JStr ''Failed to generate next steps'')]\<rparr>,
                [ErrorLog ''POST /api/dashboard/next-steps error'' err], w)
           | Inr (studentProfile, collegeMatches, schols) \<Rightarrow>
               (case getNextSteps h studentProfile collegeMatches schols w of
                  (nextSteps, out, w') \<Rightarrow>
                    (\<lparr>status = 200, json = JObj [(''nextSteps'', nextSteps)]\<rparr>, out, w'))))"

section \<open>Shapes of results\<close>

text \<open>A NextStep is an object with the one field \<open>task\<close>, a non-empty string.\<close>

fun is_NextStep :: "jsval \<Rightarrow> bool" where
  "is_NextStep (JObj [(k, JStr t)]) = (k = ''task'' \<and> t \<noteq> [])"
| "is_NextStep v = False"

text \<open>A sequence of exactly three NextSteps.\<close>

fun three_next_steps :: "jsval \<Rightarrow> bool" where
  "three_next_steps (JArr xs) = (length xs = 3 \<and> list_all is_NextStep xs)"
| "three_next_steps v = False"

text \<open>An error descriptor is an object with the one field \<open>error\<close>, a string.\<close>

fun is_error_descriptor :: "jsval \<Rightarrow> bool" where
  "is_error_descriptor (JObj [(k, JStr m)]) = (k = ''error'')"
| "is_error_descriptor v = False"

text \<open>A value that has no own field \<open>k\<close>.\<close>

fun lacks_field :: "jsval \<Rightarrow> string \<Rightarrow> bool" where
  "lacks_field (JObj fs) k = (map_of fs k = None)"
| "lacks_field v k = True"

text \<open>
  The spec's NextStep shape of an element of the parsed array: its \<open>task\<close> alone, every
  other field dropped.
\<close>

definition nextStep_shape :: "jsval \<Rightarrow> jsval" where
  "nextStep_shape v = JObj [(''task'', get_opt v ''task'')]"

text \<open>The amount of a scholarship as the generator receives it.\<close>

definition amount_num :: "jsval \<Rightarrow> rat" where
  "amount_num v = (case get_opt v ''amount'' of JNum r \<Rightarrow> r | _ \<Rightarrow> 0)"

text \<open>
  A deterministic stub of the reasoning service: its answer depends on the request alone,
  not on the world.
\<close>

definition deterministic :: "(request \<Rightarrow> 'w \<Rightarrow> (js_exn + jsval) \<times> 'w) \<Rightarrow> bool" where
  "deterministic create = (\<forall>req w1 w2. fst (create req w1) = fst (create req w2))"

text \<open>A scholarship reduced to its title, amount and deadline, in this order.\<close>

fun has_title_amount_deadline :: "jsval \<Rightarrow> bool" where
  "has_title_amount_deadline (JObj [(a, t), (b, n), (c, d)]) =
     (a = ''title'' \<and> b = ''amount'' \<and> c = ''deadline'')"
| "has_title_amount_deadline v = False"

section \<open>Stubs for the examples\<close>

text \<open>A response of the service with one choice, whose message has the content \<open>c\<close>.\<close>

definition reply :: "jsval \<Rightarrow> jsval" where
  "reply c =
     JObj [(''choices'',
       JArr [JObj [(''index'', JNum 0),
                   (''message'', JObj [(''role'', JStr ''assistant''), (''content'', c)])]])]"

text \<open>
  A stub of \<open>JSON.parse\<close> that knows the bodies of the examples, with the values
  \<open>JSON.parse\<close> gives them (\<open>null\<close> is converted to the text \<open>null\<close> first),
  and rejects every other body, among them the one example that is no JSON.
\<close>

definition parse_examples :: "jsval \<Rightarrow> js_exn + jsval" where
  \<open>parse_examples v =
     (if v = JNull \<or> v = JStr ''null'' then Inr JNull
      else if v = JStr ''{}'' then Inr (JObj [])
      else if v = JStr ''{"steps":[]}'' then Inr (JObj [(''steps'', JArr [])])
      else if v = JStr ''{"nextSteps":[{"task":"A"}]}'' then
        Inr (JObj [(''nextSteps'', JArr [JObj [(''task'', JStr ''A'')]])])
      else if v = JStr ''{"nextSteps":[{"task":"A"},{"task":"B"},{"task":"C"}]}'' then
        Inr (JObj [(''nextSteps'',
          JArr [JObj [(''task'', JStr ''A'')], JObj [(''task'', JStr ''B'')],
                JObj [(''task'', JStr ''C'')]])])
      else if v = JStr ''{"nextSteps":[{"task":"A","priority":1}]}'' then
        Inr (JObj [(''nextSteps'',
          JArr [JObj [(''task'', JStr ''A''), (''priority'', JNum 1)]])])
      else Inl (JsError ''SyntaxError'' ''Unexpected token''))\<close>

text \<open>
  A host whose service gives the same answer to every request and counts its calls in the
  world.
\<close>

definition stub_host :: "js_exn + jsval \<Rightarrow> nat host" where
  "stub_host answer =
     \<lparr>chat_create = (\<lambda>req w. (answer, Suc w)),
      JSON_parse = parse_examples,
      JSON_stringify = (\<lambda>v. ''{}'')\<rparr>"

text \<open>A store with the given scholarships and no profile or snapshot for anybody.\<close>

definition stub_db :: "document list \<Rightarrow> db" where
  "stub_db docs =
     \<lparr>user_applications_findOne = (\<lambda>userId. Inr JNull),
      college_matches_findOne = (\<lambda>userId. Inr JNull),
      scholarships = Inr docs\<rparr>"

text \<open>The hosts and the arguments of the examples.\<close>

definition unreachable_host :: "nat host" where
  "unreachable_host = stub_host (Inl (JsError ''APIConnectionError'' ''Connection error.''))"

definition prose_host :: "nat host" where
  "prose_host = stub_host (Inr (reply (JStr ''Sure! Here are your steps: ...'')))"

definition one_step_host :: "nat host" where
  \<open>one_step_host = stub_host (Inr (reply (JStr ''{"nextSteps":[{"task":"A"}]}'')))\<close>

definition no_profile :: jsval where
  "no_profile = JObj []"

definition no_items :: jsval where
  "no_items = JArr []"

definition empty_object_host :: "nat host" where
  \<open>empty_object_host = stub_host (Inr (reply (JStr ''{}'')))\<close>

definition null_body_host :: "nat host" where
  "null_body_host = stub_host (Inr (reply (JStr ''null'')))"

definition extra_field_host :: "nat host" where
  \<open>extra_field_host = stub_host (Inr (reply (JStr ''{"nextSteps":[{"task":"A","priority":1}]}'')))\<close>

definition three_step_host :: "nat host" where
  \<open>three_step_host =
     stub_host (Inr (reply (JStr ''{"nextSteps":[{"task":"A"},{"task":"B"},{"task":"C"}]}'')))\<close>

definition empty_choices_host :: "nat host" where
  "empty_choices_host = stub_host (Inr (JObj [(''choices'', JArr [])]))"

definition null_content_host :: "nat host" where
  "null_content_host = stub_host (Inr (reply JNull))"

definition unauthorized_host :: "nat host" where
  "unauthorized_host =
     stub_host (Inl (JsError ''AuthenticationError'' ''401 Incorrect API key provided: sk-test.''))"

definition six_scholarships :: "document list" where
  "six_scholarships = [
     [(''title'', JStr ''Merit''), (''amount'', JNum 1000), (''deadline'', JStr ''2026-01-15''),
      (''description'', JStr ''For high grades'')],
     [(''title'', JStr ''STEM''), (''amount'', JNum 5000), (''deadline'', JStr ''2026-02-01'')],
     [(''title'', JStr ''Arts''), (''amount'', JNum 2500)],
     [(''title'', JStr ''Local'')],
     [(''title'', JStr ''Essay''), (''amount'', JNum 750), (''deadline'', JStr ''2026-03-01'')],
     [(''title'', JStr ''National''), (''amount'', JNum 10000), (''deadline'', JNull)]]"

section \<open>Facts about getNextSteps\<close>

lemma getNextSteps_thrown:
  assumes "chat_create h (build_request h p m s) w = (Inl err, w')"
  shows "getNextSteps h p m s w =
           (error_descriptor err, [ErrorLog ''Error in getNextSteps:'' err], w')"
  using assms by (simp add: getNextSteps_def getNextSteps_try_def)

lemma getNextSteps_unreadable:
  assumes "chat_create h (build_request h p m s) w = (Inr response, w')"
    and "read_content response = Inl err"
  shows "getNextSteps h p m s w =
           (error_descriptor err, [ErrorLog ''Error in getNextSteps:'' err], w')"
  using assms by (simp add: getNextSteps_def getNextSteps_try_def)

lemma getNextSteps_replied:
  assumes "chat_create h (build_request h p m s) w = (Inr response, w')"
    and "read_content response = Inr body"
  shows "getNextSteps h p m s w = (fst (normalize_body h body), snd (normalize_body h body), w')"
  using assms by (simp add: getNextSteps_def getNextSteps_try_def split: prod.splits)

lemma read_content_reply: "read_content (reply c) = Inr c"
  by (simp add: read_content_def reply_def field_def)

lemma stub_host_simps:
  "chat_create (stub_host a) req w = (a, Suc w)"
  "JSON_parse (stub_host a) = parse_examples"
  by (simp_all add: stub_host_def)

lemma is_error_descriptor_error: "is_error_descriptor (error_descriptor err)"
  by (simp add: error_descriptor_def)

lemma three_next_steps_fallback: "three_next_steps fallbackSteps"
  by (simp add: fallbackSteps_def)

lemma fallback_no_error: "\<not> is_error_descriptor fallbackSteps"
  by (simp add: fallbackSteps_def)

section \<open>The transport failure path\<close>

text \<open>
  C3. When the call of the reasoning service throws, the exception does not escape
  \<open>getNextSteps\<close>: the body of its \<open>try\<close> throws the fault, and the function returns
  the error descriptor whose \<open>error\<close> field is the fault's message, after logging the
  fault.
\<close>

theorem service_fault_returns_error_descriptor:
  assumes "chat_create h (build_request h p m s) w = (Inl err, w')"
  shows "fst (getNextSteps_try h p m s w) = Inl err \<and>
         fst (getNextSteps h p m s w) = JObj [(''error'', JStr (message err))] \<and>
         is_error_descriptor (fst (getNextSteps h p m s w)) \<and>
         fst (snd (getNextSteps h p m s w)) = [ErrorLog ''Error in getNextSteps:'' err]"
proof -
  have "fst (getNextSteps_try h p m s w) = Inl err"
    using assms by (simp add: getNextSteps_try_def)
  moreover have "getNextSteps h p m s w =
      (error_descriptor err, [ErrorLog ''Error in getNextSteps:'' err], w')"
    using assms by (rule getNextSteps_thrown)
  ultimately show ?thesis
    by (simp add: error_descriptor_def)
qed

theorem service_fault_returns_error_descriptor_witness:
  "chat_create unreachable_host (build_request unreachable_host no_profile no_items no_items) 0 =
     (Inl (JsError ''APIConnectionError'' ''Connection error.''), 1) \<and>
   fst (getNextSteps unreachable_host no_profile no_items no_items 0) =
     JObj [(''error'', JStr ''Connection error.'')]"
proof -
  have c: "chat_create unreachable_host
      (build_request unreachable_host no_profile no_items no_items) 0 =
      (Inl (JsError ''APIConnectionError'' ''Connection error.''), 1)"
    by (simp add: unreachable_host_def stub_host_simps)
  from service_fault_returns_error_descriptor [OF c] c show ?thesis
    by simp
qed

section \<open>The normalizer\<close>

text \<open>
  C2. When \<open>JSON.parse\<close> throws on the body of the service's response, the normalizer
  returns the fixed fallback sequence and warns once on the console; so does
  \<open>getNextSteps\<close>. The fallback is a sequence of three NextSteps and no error
  descriptor, and it is the same for every such body: nothing of the body is recovered.
\<close>

theorem unparseable_body_returns_fallback:
  assumes "chat_create h (build_request h p m s) w = (Inr response, w')"
    and "read_content response = Inr body"
    and "JSON_parse h body = Inl e"
  shows "normalize_body h body = (fallbackSteps, [invalid_json_warning]) \<and>
         getNextSteps h p m s w = (fallbackSteps, [invalid_json_warning], w') \<and>
         three_next_steps fallbackSteps \<and> \<not> is_error_descriptor fallbackSteps"
proof -
  have n: "normalize_body h body = (fallbackSteps, [invalid_json_warning])"
    using assms(3) by (simp add: normalize_body_def)
  have "getNextSteps h p m s w = (fst (normalize_body h body), snd (normalize_body h body), w')"
    using assms(1,2) by (rule getNextSteps_replied)
  with n show ?thesis
    by (simp add: three_next_steps_fallback fallback_no_error)
qed

theorem unparseable_body_returns_fallback_witness:
  "JSON_parse prose_host (JStr ''Sure! Here are your steps: ...'') =
     Inl (JsError ''SyntaxError'' ''Unexpected token'') \<and>
   getNextSteps prose_host no_profile no_items no_items 0 =
     (fallbackSteps, [invalid_json_warning], 1)"
proof -
  have c: "chat_create prose_host (build_request prose_host no_profile no_items no_items) 0 =
      (Inr (reply (JStr ''Sure! Here are your steps: ...'')), 1)"
    by (simp add: prose_host_def stub_host_simps)
  have r: "read_content (reply (JStr ''Sure! Here are your steps: ...'')) =
      Inr (JStr ''Sure! Here are your steps: ...'')"
    by (rule read_content_reply)
  have e: "JSON_parse prose_host (JStr ''Sure! Here are your steps: ...'') =
      Inl (JsError ''SyntaxError'' ''Unexpected token'')"
    by (simp add: prose_host_def stub_host_simps parse_examples_def)
  from unparseable_body_returns_fallback [OF c r e] e show ?thesis
    by simp
qed

text \<open>
  C4, as stated, fails: the body \<open>null\<close> is valid JSON and its parsed value has no
  \<open>nextSteps\<close> field, but reading \<open>parsed.nextSteps\<close> of \<open>null\<close> throws inside the
  inner \<open>try\<close>, and the normalizer returns the fallback, not the empty sequence.
\<close>

theorem null_body_returns_fallback_counterexample:
  "JSON_parse null_body_host (JStr ''null'') = Inr JNull \<and>
   lacks_field JNull ''nextSteps'' \<and>
   normalize_body null_body_host (JStr ''null'') = (fallbackSteps, [invalid_json_warning]) \<and>
   fst (normalize_body null_body_host (JStr ''null'')) \<noteq> JArr []"
  by (simp add: normalize_body_def null_body_host_def stub_host_simps parse_examples_def
      fallbackSteps_def)

text \<open>
  C4, amended. When the body parses to a value other than \<open>null\<close> that has no
  \<open>nextSteps\<close> field (an object without the key, an array, a string, a number, a
  boolean), the normalizer returns the empty sequence without a warning, which is not the
  fallback.
\<close>

theorem absent_nextSteps_returns_empty:
  assumes "JSON_parse h body = Inr parsed"
    and "parsed \<noteq> JNull" and "parsed \<noteq> JUndefined"
    and "lacks_field parsed ''nextSteps''"
  shows "normalize_body h body = (JArr [], []) \<and> fst (normalize_body h body) \<noteq> fallbackSteps"
proof -
  have "get_prop parsed ''nextSteps'' = Inr JUndefined"
    using assms(2,3,4) by (cases parsed) (simp_all add: field_def)
  with assms(1) have "normalize_body h body = (JArr [], [])"
    by (simp add: normalize_body_def js_or_def)
  then show ?thesis
    by (simp add: fallbackSteps_def)
qed

theorem absent_nextSteps_returns_empty_witness:
  "JSON_parse empty_object_host (JStr ''{}'') = Inr (JObj []) \<and>
   JObj [] \<noteq> JNull \<and> JObj [] \<noteq> JUndefined \<and> lacks_field (JObj []) ''nextSteps'' \<and>
   normalize_body empty_object_host (JStr ''{}'') = (JArr [], [])"
proof -
  have e: "JSON_parse empty_object_host (JStr ''{}'') = Inr (JObj [])"
    by (simp add: empty_object_host_def stub_host_simps parse_examples_def)
  have l: "lacks_field (JObj []) ''nextSteps''"
    by simp
  from absent_nextSteps_returns_empty [OF e _ _ l] e l show ?thesis
    by simp
qed

text \<open>
  C5. When the body parses to an object whose \<open>nextSteps\<close> field is an array, the
  normalizer returns that array as it is, in the same order and of the same length,
  without a warning, and \<open>getNextSteps\<close> returns it: an array of one item stays an array
  of one item.
\<close>

theorem nextSteps_array_returned_verbatim:
  assumes "chat_create h (build_request h p m s) w = (Inr response, w')"
    and "read_content response = Inr body"
    and "JSON_parse h body = Inr (JObj fs)"
    and "map_of fs ''nextSteps'' = Some (JArr xs)"
  shows "normalize_body h body = (JArr xs, []) \<and> getNextSteps h p m s w = (JArr xs, [], w')"
proof -
  have n: "normalize_body h body = (JArr xs, [])"
    using assms(3,4) by (simp add: normalize_body_def field_def js_or_def)
  have "getNextSteps h p m s w = (fst (normalize_body h body), snd (normalize_body h body), w')"
    using assms(1,2) by (rule getNextSteps_replied)
  with n show ?thesis
    by simp
qed

theorem nextSteps_array_returned_verbatim_witness:
  \<open>JSON_parse one_step_host (JStr ''{"nextSteps":[{"task":"A"}]}'') =
     Inr (JObj [(''nextSteps'', JArr [JObj [(''task'', JStr ''A'')]])]) \<and>
   getNextSteps one_step_host no_profile no_items no_items 0 =
     (JArr [JObj [(''task'', JStr ''A'')]], [], 1)\<close>
proof -
  have c: \<open>chat_create one_step_host (build_request one_step_host no_profile no_items no_items) 0 =
      (Inr (reply (JStr ''{"nextSteps":[{"task":"A"}]}'')), 1)\<close>
    by (simp add: one_step_host_def stub_host_simps)
  have r: \<open>read_content (reply (JStr ''{"nextSteps":[{"task":"A"}]}'')) =
      Inr (JStr ''{"nextSteps":[{"task":"A"}]}'')\<close>
    by (rule read_content_reply)
  have e: \<open>JSON_parse one_step_host (JStr ''{"nextSteps":[{"task":"A"}]}'') =
      Inr (JObj [(''nextSteps'', JArr [JObj [(''task'', JStr ''A'')]])])\<close>
    by (simp add: one_step_host_def stub_host_simps parse_examples_def)
  have f: "map_of [(''nextSteps'', JArr [JObj [(''task'', JStr ''A'')]])] ''nextSteps'' =
      Some (JArr [JObj [(''task'', JStr ''A'')]])"
    by simp
  from nextSteps_array_returned_verbatim [OF c r e f] e show ?thesis
    by simp
qed

text \<open>
  C6, as stated, fails: an element with a field beside \<open>task\<close> is returned with that
  field, not reduced to the NextStep shape.
\<close>

theorem extra_fields_kept_counterexample:
  \<open>JSON_parse extra_field_host (JStr ''{"nextSteps":[{"task":"A","priority":1}]}'') =
     Inr (JObj [(''nextSteps'', JArr [JObj [(''task'', JStr ''A''), (''priority'', JNum 1)]])]) \<and>
   fst (normalize_body extra_field_host (JStr ''{"nextSteps":[{"task":"A","priority":1}]}'')) =
     JArr [JObj [(''task'', JStr ''A''), (''priority'', JNum 1)]] \<and>
   fst (normalize_body extra_field_host (JStr ''{"nextSteps":[{"task":"A","priority":1}]}'')) \<noteq>
     JArr (map nextStep_shape [JObj [(''task'', JStr ''A''), (''priority'', JNum 1)]])\<close>
  by (simp add: normalize_body_def extra_field_host_def stub_host_simps parse_examples_def
      field_def js_or_def nextStep_shape_def)

text \<open>
  C6, amended. When the body parses to a value whose \<open>nextSteps\<close> field is an array,
  the normalizer returns that array with every field of every element kept; the result
  is the array in NextStep shape exactly when each element had that shape already.
\<close>

theorem nextSteps_array_keeps_fields:
  assumes "JSON_parse h body = Inr parsed"
    and "get_prop parsed ''nextSteps'' = Inr (JArr xs)"
  shows "fst (normalize_body h body) = JArr xs \<and>
         (fst (normalize_body h body) = JArr (map nextStep_shape xs)) = (map nextStep_shape xs = xs)"
proof -
  have "normalize_body h body = (JArr xs, [])"
    using assms by (simp add: normalize_body_def js_or_def)
  then show ?thesis
    by auto
qed

theorem nextSteps_array_keeps_fields_witness:
  \<open>JSON_parse three_step_host (JStr ''{"nextSteps":[{"task":"A"},{"task":"B"},{"task":"C"}]}'') =
     Inr (JObj [(''nextSteps'',
       JArr [JObj [(''task'', JStr ''A'')], JObj [(''task'', JStr ''B'')],
             JObj [(''task'', JStr ''C'')]])]) \<and>
   fst (normalize_body three_step_host
       (JStr ''{"nextSteps":[{"task":"A"},{"task":"B"},{"task":"C"}]}'')) =
     JArr [JObj [(''task'', JStr ''A'')], JObj [(''task'', JStr ''B'')],
           JObj [(''task'', JStr ''C'')]]\<close>
proof -
  have e: \<open>JSON_parse three_step_host
      (JStr ''{"nextSteps":[{"task":"A"},{"task":"B"},{"task":"C"}]}'') =
      Inr (JObj [(''nextSteps'',
        JArr [JObj [(''task'', JStr ''A'')], JObj [(''task'', JStr ''B'')],
              JObj [(''task'', JStr ''C'')]])])\<close>
    by (simp add: three_step_host_def stub_host_simps parse_examples_def)
  have g: "get_prop (JObj [(''nextSteps'',
        JArr [JObj [(''task'', JStr ''A'')], JObj [(''task'', JStr ''B'')],
              JObj [(''task'', JStr ''C'')]])]) ''nextSteps'' =
      Inr (JArr [JObj [(''task'', JStr ''A'')], JObj [(''task'', JStr ''B'')],
                 JObj [(''task'', JStr ''C'')]])"
    by (simp add: field_def)
  from nextSteps_array_keeps_fields [OF e g] e show ?thesis
    by simp
qed

section \<open>The results of getNextSteps\<close>

text \<open>
  C1, as stated, fails: when the service answers with a body whose \<open>nextSteps\<close> array
  has one item, \<open>getNextSteps\<close> returns that one item, which is neither a sequence of
  three NextSteps nor an error descriptor.
\<close>

theorem one_step_reply_counterexample:
  "\<not> (three_next_steps (fst (getNextSteps one_step_host no_profile no_items no_items 0)) \<or>
      is_error_descriptor (fst (getNextSteps one_step_host no_profile no_items no_items 0)))"
  by (simp add: getNextSteps_def getNextSteps_try_def one_step_host_def stub_host_simps
      read_content_reply normalize_body_def parse_examples_def field_def js_or_def)

text \<open>
  C1, amended. For every input and every behaviour of the service, \<open>getNextSteps\<close>
  returns an error descriptor, or the fixed fallback sequence (which is three NextSteps),
  or the empty sequence, or the truthy \<open>nextSteps\<close> value of the parsed body as it
  is, whatever its length.
\<close>

theorem getNextSteps_result_shapes:
  "three_next_steps fallbackSteps \<and>
   (is_error_descriptor (fst (getNextSteps h p m s w)) \<or>
    fst (getNextSteps h p m s w) = fallbackSteps \<or>
    fst (getNextSteps h p m s w) = JArr [] \<or>
    (\<exists>response body parsed.
       fst (chat_create h (build_request h p m s) w) = Inr response \<and>
       read_content response = Inr body \<and>
       JSON_parse h body = Inr parsed \<and>
       get_prop parsed ''nextSteps'' = Inr (fst (getNextSteps h p m s w)) \<and>
       truthy (fst (getNextSteps h p m s w))))"
proof -
  obtain r w' where c: "chat_create h (build_request h p m s) w = (r, w')"
    by (cases "chat_create h (build_request h p m s) w")
  show ?thesis
  proof (cases r)
    case (Inl err)
    with c have "fst (getNextSteps h p m s w) = error_descriptor err"
      by (simp add: getNextSteps_thrown)
    then show ?thesis
      by (simp add: is_error_descriptor_error three_next_steps_fallback)
  next
    case (Inr response)
    note resp = this
    show ?thesis
    proof (cases "read_content response")
      case (Inl err)
      with c resp have "fst (getNextSteps h p m s w) = error_descriptor err"
        by (simp add: getNextSteps_unreadable)
      then show ?thesis
        by (simp add: is_error_descriptor_error three_next_steps_fallback)
    next
      case (Inr body)
      with c resp have g: "fst (getNextSteps h p m s w) = fst (normalize_body h body)"
        by (simp add: getNextSteps_replied)
      show ?thesis
      proof (cases "JSON_parse h body")
        case (Inl e)
        then show ?thesis
          using g by (simp add: normalize_body_def three_next_steps_fallback)
      next
        case parsed: (Inr parsed)
        show ?thesis
        proof (cases "get_prop parsed ''nextSteps''")
          case (Inl e)
          then show ?thesis
            using g parsed by (simp add: normalize_body_def three_next_steps_fallback)
        next
          case ns: (Inr ns)
          show ?thesis
          proof (cases "truthy ns")
            case True
            with g parsed ns have "fst (getNextSteps h p m s w) = ns"
              by (simp add: normalize_body_def js_or_def)
            with True c resp Inr parsed ns show ?thesis
              by (auto simp: three_next_steps_fallback)
          next
            case False
            with g parsed ns have "fst (getNextSteps h p m s w) = JArr []"
              by (simp add: normalize_body_def js_or_def)
            then show ?thesis
              by (simp add: three_next_steps_fallback)
          qed
        qed
      qed
    qed
  qed
qed

text \<open>
  C9. With a deterministic stub for the reasoning service, one whose answer depends on
  the request alone, two calls of \<open>getNextSteps\<close> with the same profile, matches and
  scholarships return the same value and write the same console output, whatever the
  state of the world at each call.
\<close>

theorem getNextSteps_deterministic:
  assumes "deterministic (chat_create h)"
  shows "fst (getNextSteps h p m s w1) = fst (getNextSteps h p m s w2) \<and>
         fst (snd (getNextSteps h p m s w1)) = fst (snd (getNextSteps h p m s w2))"
proof -
  obtain r1 v1 where c1: "chat_create h (build_request h p m s) w1 = (r1, v1)"
    by (cases "chat_create h (build_request h p m s) w1")
  obtain r2 v2 where c2: "chat_create h (build_request h p m s) w2 = (r2, v2)"
    by (cases "chat_create h (build_request h p m s) w2")
  have "fst (chat_create h (build_request h p m s) w1) =
        fst (chat_create h (build_request h p m s) w2)"
    using assms by (simp add: deterministic_def)
  with c1 c2 have "r1 = r2"
    by simp
  with c1 c2 show ?thesis
    by (simp add: getNextSteps_def getNextSteps_try_def split: sum.splits prod.splits)
qed

theorem getNextSteps_deterministic_witness:
  "deterministic (chat_create three_step_host) \<and>
   fst (getNextSteps three_step_host no_profile no_items no_items 0) =
   fst (getNextSteps three_step_host no_profile no_items no_items 7)"
proof -
  have d: "deterministic (chat_create three_step_host)"
    by (simp add: deterministic_def three_step_host_def stub_host_simps)
  from getNextSteps_deterministic [OF d, of no_profile no_items no_items 0 7] d show ?thesis
    by simp
qed

section \<open>Degenerate responses\<close>

text \<open>
  C10, as stated, fails for the response whose message content is \<open>null\<close>: reading
  \<open>response.choices[0].message.content\<close> does not throw there, \<open>JSON.parse(null)\<close>
  is \<open>null\<close>, reading its \<open>nextSteps\<close> throws inside the inner \<open>try\<close>, and
  \<open>getNextSteps\<close> returns the fallback sequence, not an error descriptor.
\<close>

theorem null_content_counterexample:
  "read_content (reply JNull) = Inr JNull \<and>
   fst (getNextSteps null_content_host no_profile no_items no_items 0) = fallbackSteps \<and>
   \<not> is_error_descriptor (fst (getNextSteps null_content_host no_profile no_items no_items 0))"
  by (simp add: getNextSteps_def getNextSteps_try_def null_content_host_def stub_host_simps
      read_content_reply normalize_body_def parse_examples_def fallback_no_error)

text \<open>
  C10, amended. When the service answers with a response whose \<open>choices\<close> array is
  empty, reading \<open>response.choices[0].message\<close> throws a TypeError, the outer handler
  catches it, and \<open>getNextSteps\<close> returns the error descriptor with the TypeError's
  message, as for a transport failure. A response whose message content is \<open>null\<close>
  does not take this path: the read does not throw, and with \<open>JSON.parse(null)\<close> being
  \<open>null\<close> the result is the fallback sequence with its warning.
\<close>

theorem empty_choices_error_path:
  assumes "chat_create h (build_request h p m s) w = (Inr response, w')"
  shows "(get_prop response ''choices'' = Inr (JArr []) \<longrightarrow>
            read_content response = Inl (cannot_read ''undefined'' ''message'') \<and>
            getNextSteps h p m s w =
              (error_descriptor (cannot_read ''undefined'' ''message''),
               [ErrorLog ''Error in getNextSteps:'' (cannot_read ''undefined'' ''message'')], w') \<and>
            is_error_descriptor (fst (getNextSteps h p m s w))) \<and>
         (read_content response = Inr JNull \<and> JSON_parse h JNull = Inr JNull \<longrightarrow>
            getNextSteps h p m s w = (fallbackSteps, [invalid_json_warning], w'))"
proof (intro conjI impI)
  assume e: "get_prop response ''choices'' = Inr (JArr [])"
  then show r: "read_content response = Inl (cannot_read ''undefined'' ''message'')"
    by (simp add: read_content_def)
  with assms show g: "getNextSteps h p m s w =
      (error_descriptor (cannot_read ''undefined'' ''message''),
       [ErrorLog ''Error in getNextSteps:'' (cannot_read ''undefined'' ''message'')], w')"
    by (rule getNextSteps_unreadable)
  then show "is_error_descriptor (fst (getNextSteps h p m s w))"
    by (simp add: is_error_descriptor_error)
next
  assume n: "read_content response = Inr JNull \<and> JSON_parse h JNull = Inr JNull"
  then have "normalize_body h JNull = (fallbackSteps, [invalid_json_warning])"
    by (simp add: normalize_body_def)
  moreover have "getNextSteps h p m s w =
      (fst (normalize_body h JNull), snd (normalize_body h JNull), w')"
    using assms n by (simp add: getNextSteps_replied)
  ultimately show "getNextSteps h p m s w = (fallbackSteps, [invalid_json_warning], w')"
    by simp
qed

theorem empty_choices_error_path_witness:
  "get_prop (JObj [(''choices'', JArr [])]) ''choices'' = Inr (JArr []) \<and>
   fst (getNextSteps empty_choices_host no_profile no_items no_items 0) =
     JObj [(''error'', JStr (message (cannot_read ''undefined'' ''message'')))] \<and>
   read_content (reply JNull) = Inr JNull \<and>
   JSON_parse null_content_host JNull = Inr JNull \<and>
   fst (getNextSteps null_content_host no_profile no_items no_items 0) = fallbackSteps"
proof -
  have c1: "chat_create empty_choices_host
      (build_request empty_choices_host no_profile no_items no_items) 0 =
      (Inr (JObj [(''choices'', JArr [])]), 1)"
    by (simp add: empty_choices_host_def stub_host_simps)
  have e: "get_prop (JObj [(''choices'', JArr [])]) ''choices'' = Inr (JArr [])"
    by (simp add: field_def)
  have c2: "chat_create null_content_host
      (build_request null_content_host no_profile no_items no_items) 0 =
      (Inr (reply JNull), 1)"
    by (simp add: null_content_host_def stub_host_simps)
  have r: "read_content (reply JNull) = Inr JNull"
    by (rule read_content_reply)
  have j: "JSON_parse null_content_host JNull = Inr JNull"
    by (simp add: null_content_host_def stub_host_simps parse_examples_def)
  from empty_choices_error_path [OF c1] empty_choices_error_path [OF c2] e r j show ?thesis
    by (simp add: error_descriptor_def)
qed

section \<open>Facts about the store and the route\<close>

lemma amount_num_project: "amount_num (project_scholarship d) = amount_of d"
  by (simp add: amount_num_def project_scholarship_def amount_of_def field_def)

lemma top_by_amount_sorted:
  "sorted_wrt (\<lambda>a b. amount_of b \<le> amount_of a) (top_by_amount n docs)"
proof -
  have "sorted (map (\<lambda>d. - amount_of d) (sort_key (\<lambda>d. - amount_of d) docs))"
    by (rule sorted_sort_key)
  then have "sorted_wrt (\<lambda>a b. amount_of b \<le> amount_of a) (sort_key (\<lambda>d. - amount_of d) docs)"
    by (simp add: sorted_map)
  then show ?thesis
    unfolding top_by_amount_def by (rule sorted_wrt_take)
qed

lemma projected_sorted:
  "sorted_wrt (\<lambda>a b. amount_num b \<le> amount_num a)
     (map project_scholarship (top_by_amount n docs))"
  using top_by_amount_sorted [of n docs]
  by (simp add: sorted_wrt_map amount_num_project)

lemma length_top_by_amount: "length (top_by_amount n docs) = min n (length docs)"
  by (simp add: top_by_amount_def min.commute)

lemma projected_shape: "list_all has_title_amount_deadline (map project_scholarship ds)"
  by (induction ds) (simp_all add: project_scholarship_def)

lemma post_next_steps_resolved:
  assumes "resolve_inputs d body = Inr (p, m, s)"
  shows "post_next_steps h (Some d) body w =
           (\<lparr>status = 200, json = JObj [(''nextSteps'', fst (getNextSteps h p m s w))]\<rparr>,
            fst (snd (getNextSteps h p m s w)), snd (snd (getNextSteps h p m s w)))"
  using assms by (simp add: post_next_steps_def split: prod.splits)

lemma stub_db_simps: "scholarships (stub_db docs) = Inr docs"
  by (simp add: stub_db_def)

section \<open>The inputs of the generator\<close>

text \<open>
  C7, as stated, fails twice. Where it promises a non-empty scholarships sequence: with a
  store that holds no scholarship, a request body \<open>{}\<close> resolves to the empty object,
  the empty matches and the empty scholarships sequence. And where the request has no
  body at all: the body \<open>undefined\<close> supplies none of the four fields, but
  destructuring it throws, nothing is resolved, and the handler answers 500 without
  calling \<open>getNextSteps\<close>, though the store holds scholarships.
\<close>

theorem empty_store_counterexample:
  "resolve_inputs (stub_db []) (JObj []) = Inr (JObj [], JArr [], JArr []) \<and>
   lacks_field JUndefined ''studentProfile'' \<and> lacks_field JUndefined ''collegeMatches'' \<and>
   lacks_field JUndefined ''scholarships'' \<and> lacks_field JUndefined ''userId'' \<and>
   resolve_inputs (stub_db six_scholarships) JUndefined =
     Inl (cannot_destructure ''undefined'') \<and>
   post_next_steps unreachable_host (Some (stub_db six_scholarships)) JUndefined 0 =
     (\<lparr>status = 500, json = JObj [(''error'', JStr ''Failed to generate next steps'')]\<rparr>,
      [ErrorLog ''POST /api/dashboard/next-steps error'' (cannot_destructure ''undefined'')],
      0)"
  by (simp add: post_next_steps_def resolve_inputs_def resolve_profile_def
      resolve_matches_def resolve_scholarships_def field_def js_or_def stub_db_simps
      top_by_amount_def)

text \<open>
  C7, amended. When the store's handle is available, the request body is a value other
  than \<open>undefined\<close> and \<open>null\<close> that has no \<open>studentProfile\<close>,
  \<open>collegeMatches\<close>, \<open>scholarships\<close> and \<open>userId\<close>, and the store answers the
  scholarships query, the handler calls \<open>getNextSteps\<close> with the empty object, the
  empty sequence, and the top 5 scholarships of the store by amount, each reduced to
  title, amount and deadline: at most 5 items (as many as the store holds, when it holds
  fewer, so none for an empty store), sorted by amount descending.
\<close>

theorem no_caller_data_resolution:
  assumes "body \<noteq> JUndefined" and "body \<noteq> JNull"
    and "lacks_field body ''studentProfile''" and "lacks_field body ''collegeMatches''"
    and "lacks_field body ''scholarships''" and "lacks_field body ''userId''"
    and "scholarships d = Inr docs"
  shows "resolve_inputs d body =
           Inr (JObj [], JArr [], JArr (map project_scholarship (top_by_amount 5 docs))) \<and>
         post_next_steps h (Some d) body w =
           (\<lparr>status = 200, json = JObj [(''nextSteps'',
               fst (getNextSteps h (JObj []) (JArr [])
                 (JArr (map project_scholarship (top_by_amount 5 docs))) w))]\<rparr>,
            fst (snd (getNextSteps h (JObj []) (JArr [])
                 (JArr (map project_scholarship (top_by_amount 5 docs))) w)),
            snd (snd (getNextSteps h (JObj []) (JArr [])
                 (JArr (map project_scholarship (top_by_amount 5 docs))) w))) \<and>
         length (map project_scholarship (top_by_amount 5 docs)) = min 5 (length docs) \<and>
         sorted_wrt (\<lambda>a b. amount_num b \<le> amount_num a)
           (map project_scholarship (top_by_amount 5 docs)) \<and>
         list_all has_title_amount_deadline (map project_scholarship (top_by_amount 5 docs))"
proof -
  have "destructure_body body = Inr (JUndefined, JUndefined, JUndefined, JUndefined)"
    using assms(1-6) by (cases body) (simp_all add: field_def)
  then have r: "resolve_inputs d body =
      Inr (JObj [], JArr [], JArr (map project_scholarship (top_by_amount 5 docs)))"
    using assms(7)
    by (simp add: resolve_inputs_def resolve_profile_def resolve_matches_def
        resolve_scholarships_def js_or_def)
  from r show ?thesis
    by (simp add: post_next_steps_resolved length_top_by_amount projected_sorted
        projected_shape)
qed

theorem no_caller_data_resolution_witness:
  "JObj [] \<noteq> JUndefined \<and> JObj [] \<noteq> JNull \<and>
   lacks_field (JObj []) ''studentProfile'' \<and> lacks_field (JObj []) ''collegeMatches'' \<and>
   lacks_field (JObj []) ''scholarships'' \<and> lacks_field (JObj []) ''userId'' \<and>
   scholarships (stub_db six_scholarships) = Inr six_scholarships \<and>
   resolve_inputs (stub_db six_scholarships) (JObj []) =
     Inr (JObj [], JArr [],
       JArr [
         JObj [(''title'', JStr ''National''), (''amount'', JNum 10000), (''deadline'', JNull)],
         JObj [(''title'', JStr ''STEM''), (''amount'', JNum 5000),
               (''deadline'', JStr ''2026-02-01'')],
         JObj [(''title'', JStr ''Arts''), (''amount'', JNum 2500), (''deadline'', JUndefined)],
         JObj [(''title'', JStr ''Merit''), (''amount'', JNum 1000),
               (''deadline'', JStr ''2026-01-15'')],
         JObj [(''title'', JStr ''Essay''), (''amount'', JNum 750),
               (''deadline'', JStr ''2026-03-01'')]])"
proof -
  have l: "lacks_field (JObj []) k" for k
    by simp
  have s: "scholarships (stub_db six_scholarships) = Inr six_scholarships"
    by (rule stub_db_simps)
  have t: "map project_scholarship (top_by_amount 5 six_scholarships) = [
         JObj [(''title'', JStr ''National''), (''amount'', JNum 10000), (''deadline'', JNull)],
         JObj [(''title'', JStr ''STEM''), (''amount'', JNum 5000),
               (''deadline'', JStr ''2026-02-01'')],
         JObj [(''title'', JStr ''Arts''), (''amount'', JNum 2500), (''deadline'', JUndefined)],
         JObj [(''title'', JStr ''Merit''), (''amount'', JNum 1000),
               (''deadline'', JStr ''2026-01-15'')],
         JObj [(''title'', JStr ''Essay''), (''amount'', JNum 750),
               (''deadline'', JStr ''2026-03-01'')]]"
    by (simp add: top_by_amount_def six_scholarships_def amount_of_def field_def
        project_scholarship_def)
  from no_caller_data_resolution [OF _ _ l l l l s, of "stub_host (Inr JNull)" 0] s t
  show ?thesis
    by simp
qed

section \<open>The route on a transport failure\<close>

text \<open>
  C8. The code does not do what the claim says. When the reasoning service rejects the
  call, \<open>getNextSteps\<close> returns the error descriptor and the handler sends it as the
  value of \<open>nextSteps\<close> with status 200: the provider's error text reaches the client,
  and no service-unavailable response is sent.
\<close>

theorem transport_failure_sent_to_client:
  "post_next_steps unauthorized_host (Some (stub_db [])) (JObj []) 0 =
     (\<lparr>status = 200,
       json = JObj [(''nextSteps'',
         JObj [(''error'', JStr ''401 Incorrect API key provided: sk-test.'')])]\<rparr>,
      [ErrorLog ''Error in getNextSteps:''
         (JsError ''AuthenticationError'' ''401 Incorrect API key provided: sk-test.'')],
      1)"
proof -
  have r: "resolve_inputs (stub_db []) (JObj []) = Inr (JObj [], JArr [], JArr [])"
    by (simp add: resolve_inputs_def resolve_profile_def resolve_matches_def
        resolve_scholarships_def field_def js_or_def stub_db_simps top_by_amount_def)
  have c: "chat_create unauthorized_host
      (build_request unauthorized_host (JObj []) (JArr []) (JArr [])) 0 =
      (Inl (JsError ''AuthenticationError'' ''401 Incorrect API key provided: sk-test.''), 1)"
    by (simp add: unauthorized_host_def stub_host_simps)
  show ?thesis
    by (simp add: post_next_steps_resolved [OF r] getNextSteps_thrown [OF c]
        error_descriptor_def)
qed

end
